theory Spec2Isabelle
  imports Main
begin

section \<open>The request pipeline of \<open>lib/core/Axios.js\<close>\<close>

text \<open>
  The theory embeds \<open>Axios.prototype.request\<close>: the normalisation of its arguments, the
  choice of the request method, the assembly of the two interceptor chains and the two ways
  of running them around \<open>dispatchRequest\<close>.

  The collaborators that the file only requires (\<open>mergeConfig\<close>, \<open>dispatchRequest\<close>) are
  parameters of the model. Every JavaScript function called by the pipeline logs its call in
  a trace, so that the order of the calls and their arguments can be stated.
\<close>

subsection \<open>Values, completions, promises\<close>

text \<open>
  A value flowing through the pipeline is either an application value (a configuration, a
  response, an error object: the type parameter) or the \<open>TypeError\<close> that JavaScript
  raises when something that is not a function is called.
\<close>

datatype 'a jsval = TypeError | Val 'a

text \<open>A call of an interceptor handler either returns a value or raises one.\<close>

datatype 'a completion = Returned "'a jsval" | Raised "'a jsval"

text \<open>
  A promise is represented by the state it settles to. A handler that hands back a promise
  from inside \<open>then\<close> is represented by that promise's settlement (\<open>Returned\<close> for a
  fulfilment, \<open>Raised\<close> for a rejection), which is what \<open>then\<close> adopts.
\<close>

datatype 'a promise = Fulfilled "'a jsval" | Rejected "'a jsval"

datatype 'a event = HandlerCall string "'a jsval" | DispatchCall "'a jsval"

type_synonym 'a trace = "'a event list"

text \<open>A handler is a JavaScript function with a name for the trace.\<close>

datatype 'a handler = Handler string "'a jsval \<Rightarrow> 'a completion"

text \<open>
  \<open>dispatchRequest(config)\<close> either raises synchronously (\<open>Inl\<close>) or returns a promise.
\<close>

type_synonym 'a transport = "'a jsval \<Rightarrow> 'a jsval + 'a promise"

text \<open>
  The elements of the array \<open>chain\<close> of the promise-based branch: interceptor handlers and
  \<open>dispatchRequest\<close>; \<open>undefined\<close> is \<open>None\<close>.
\<close>

datatype 'a callable = Interceptor "'a handler" | Transport "'a transport"

subsection \<open>Interceptors and their registry\<close>

text \<open>
  The four properties of a registered interceptor that \<open>request\<close> reads. \<open>runWhen\<close> is
  \<open>None\<close> when it is not a function; the predicate's value \<open>False\<close> is the JavaScript
  result \<open>false\<close>.
\<close>

record 'a interceptor =
  fulfilled :: "'a handler option"
  rejected :: "'a handler option"
  synchronous :: bool
  runWhen :: "('a jsval \<Rightarrow> bool) option"

text \<open>
  Modelled from the spec: \<open>InterceptorManager.forEach\<close> is not part of the file. The
  registry holds its entries in registration order, a removed entry leaves a tombstone
  (\<open>None\<close>), and the traversal calls the function on every entry that is left, in order.
\<close>

fun forEach :: "'a interceptor option list \<Rightarrow> ('s \<Rightarrow> 'a interceptor \<Rightarrow> 's) \<Rightarrow> 's \<Rightarrow> 's" where
  "forEach [] fn s = s"
| "forEach (None # hs) fn s = forEach hs fn s"
| "forEach (Some h # hs) fn s = forEach hs fn (fn s h)"

subsection \<open>Chain assembly (lines 72 to 101)\<close>

text \<open>
  The state of the first traversal is the pair of \<open>requestInterceptorChain\<close> and
  \<open>synchronousRequestInterceptors\<close>.
\<close>

definition unshiftRequestInterceptors ::
  "'a jsval \<Rightarrow> 'a handler option list \<times> bool \<Rightarrow> 'a interceptor \<Rightarrow> 'a handler option list \<times> bool" where
  "unshiftRequestInterceptors config st interceptor =
     (case st of (requestInterceptorChain, synchronousRequestInterceptors) \<Rightarrow>
        if (case runWhen interceptor of None \<Rightarrow> False | Some p \<Rightarrow> p config = False)
        then (requestInterceptorChain, synchronousRequestInterceptors)
        else (fulfilled interceptor # rejected interceptor # requestInterceptorChain,
              synchronousRequestInterceptors \<and> synchronous interceptor))"

definition pushResponseInterceptors ::
  "'a handler option list \<Rightarrow> 'a interceptor \<Rightarrow> 'a handler option list" where
  "pushResponseInterceptors responseInterceptorChain interceptor =
     responseInterceptorChain @ [fulfilled interceptor, rejected interceptor]"

definition assembleRequest ::
  "'a interceptor option list \<Rightarrow> 'a jsval \<Rightarrow> 'a handler option list \<times> bool" where
  "assembleRequest reg config = forEach reg (unshiftRequestInterceptors config) ([], True)"

definition assembleResponse :: "'a interceptor option list \<Rightarrow> 'a handler option list" where
  "assembleResponse reg = forEach reg pushResponseInterceptors []"

text \<open>
  The three results of the assembly: \<open>requestInterceptorChain\<close>,
  \<open>responseInterceptorChain\<close> and \<open>synchronousRequestInterceptors\<close>.
\<close>

definition assemble ::
  "'a interceptor option list \<Rightarrow> 'a interceptor option list \<Rightarrow> 'a jsval \<Rightarrow>
     'a handler option list \<times> 'a handler option list \<times> bool" where
  "assemble requestRegistry responseRegistry config =
     (case assembleRequest requestRegistry config of
        (requestInterceptorChain, synchronousRequestInterceptors) \<Rightarrow>
          (requestInterceptorChain, assembleResponse responseRegistry,
           synchronousRequestInterceptors))"

subsection \<open>Calls and \<open>then\<close>\<close>

text \<open>A direct call \<open>f(x)\<close>; calling \<open>undefined\<close> raises the \<open>TypeError\<close>.\<close>

fun call_handler :: "'a handler option \<Rightarrow> 'a jsval \<Rightarrow> 'a trace \<Rightarrow> 'a completion \<times> 'a trace" where
  "call_handler None x tr = (Raised TypeError, tr)"
| "call_handler (Some (Handler l f)) x tr = (f x, tr @ [HandlerCall l x])"

text \<open>
  A callback run by \<open>then\<close>: what it returns fulfils the new promise, what it raises
  rejects it, and a promise it returns (the transport call) is adopted.
\<close>

fun run_callback :: "'a callable \<Rightarrow> 'a jsval \<Rightarrow> 'a trace \<Rightarrow> 'a promise \<times> 'a trace" where
  "run_callback (Interceptor (Handler l f)) x tr =
     ((case f x of Returned v \<Rightarrow> Fulfilled v | Raised e \<Rightarrow> Rejected e), tr @ [HandlerCall l x])"
| "run_callback (Transport d) x tr =
     ((case d x of Inl e \<Rightarrow> Rejected e | Inr p \<Rightarrow> p), tr @ [DispatchCall x])"

text \<open>
  \<open>promise.then(onFulfilled, onRejected)\<close>: an absent callback passes the settlement on
  unchanged.
\<close>

fun promise_then ::
  "'a promise \<Rightarrow> 'a callable option \<Rightarrow> 'a callable option \<Rightarrow> 'a trace \<Rightarrow> 'a promise \<times> 'a trace" where
  "promise_then (Fulfilled v) (Some f) r tr = run_callback f v tr"
| "promise_then (Fulfilled v) None r tr = (Fulfilled v, tr)"
| "promise_then (Rejected e) f (Some r) tr = run_callback r e tr"
| "promise_then (Rejected e) f None tr = (Rejected e, tr)"

text \<open>
  The loop \<open>while (chain.length) promise = promise.then(chain.shift(), chain.shift())\<close>
  of lines 112 to 114 and 138 to 140; \<open>shift\<close> on the empty array gives \<open>undefined\<close>.
\<close>

fun then_loop :: "'a callable option list \<Rightarrow> 'a promise \<Rightarrow> 'a trace \<Rightarrow> 'a promise \<times> 'a trace" where
  "then_loop [] promise tr = (promise, tr)"
| "then_loop [f] promise tr = promise_then promise f None tr"
| "then_loop (f # r # chain) promise tr =
     (case promise_then promise f r tr of (promise', tr') \<Rightarrow> then_loop chain promise' tr')"

subsection \<open>The direct loop over the request interceptors (lines 120 to 130)\<close>

text \<open>
  One pass through the body of the loop: the \<open>try\<close> either assigns \<open>newConfig\<close>, or the
  \<open>catch\<close> calls \<open>onRejected(error)\<close>, drops what it returns and leaves the loop; what
  \<open>onRejected\<close> raises inside the \<open>catch\<close> leaves \<open>request\<close>.
\<close>

datatype 'a step = Continue "'a jsval" | Break | Throw "'a jsval"

definition try_onFulfilled ::
  "'a handler option \<Rightarrow> 'a handler option \<Rightarrow> 'a jsval \<Rightarrow> 'a trace \<Rightarrow> 'a step \<times> 'a trace" where
  "try_onFulfilled onFulfilled onRejected newConfig tr =
     (case call_handler onFulfilled newConfig tr of
        (Returned v, tr') \<Rightarrow> (Continue v, tr')
      | (Raised error, tr') \<Rightarrow>
          (case call_handler onRejected error tr' of
             (Returned _, tr'') \<Rightarrow> (Break, tr'')
           | (Raised e, tr'') \<Rightarrow> (Throw e, tr'')))"

text \<open>
  How the loop ends: the chain is used up, the loop was left by \<open>break\<close> (both with the
  current \<open>newConfig\<close>), or an exception left the function.
\<close>

datatype 'a loop_exit = Completed "'a jsval" | Aborted "'a jsval" | Threw "'a jsval"

fun request_loop :: "'a handler option list \<Rightarrow> 'a jsval \<Rightarrow> 'a trace \<Rightarrow> 'a loop_exit \<times> 'a trace" where
  "request_loop [] newConfig tr = (Completed newConfig, tr)"
| "request_loop [onFulfilled] newConfig tr =
     (case try_onFulfilled onFulfilled None newConfig tr of
        (Continue v, tr') \<Rightarrow> (Completed v, tr')
      | (Break, tr') \<Rightarrow> (Aborted newConfig, tr')
      | (Throw e, tr') \<Rightarrow> (Threw e, tr'))"
| "request_loop (onFulfilled # onRejected # chain) newConfig tr =
     (case try_onFulfilled onFulfilled onRejected newConfig tr of
        (Continue v, tr') \<Rightarrow> request_loop chain v tr'
      | (Break, tr') \<Rightarrow> (Aborted newConfig, tr')
      | (Throw e, tr') \<Rightarrow> (Threw e, tr'))"

subsection \<open>Running the chains (lines 103 to 142)\<close>

text \<open>
  The result of \<open>request\<close> is \<open>Inl e\<close> when \<open>e\<close> is raised out of the function, and
  \<open>Inr p\<close> when the promise \<open>p\<close> is returned. In the promise-based branch the value of
  \<open>chain.concat(responseInterceptorChain)\<close> is not assigned, so \<open>chain\<close> stays as it is.
\<close>

text \<open>Lines 132 to 142: the transport call and the loop over the response chain.\<close>

definition dispatch_and_respond ::
  "'a transport \<Rightarrow> 'a handler option list \<Rightarrow> 'a jsval \<Rightarrow> 'a trace \<Rightarrow>
     ('a jsval + 'a promise) \<times> 'a trace" where
  "dispatch_and_respond dispatchRequest responseInterceptorChain newConfig tr =
     (case dispatchRequest newConfig of
        Inl error \<Rightarrow> (Inr (Rejected error), tr @ [DispatchCall newConfig])
      | Inr promise \<Rightarrow>
          (case then_loop (map (map_option Interceptor) responseInterceptorChain) promise
                  (tr @ [DispatchCall newConfig]) of
             (promise', tr') \<Rightarrow> (Inr promise', tr')))"

definition execute ::
  "'a transport \<Rightarrow> 'a handler option list \<Rightarrow> 'a handler option list \<Rightarrow> bool \<Rightarrow> 'a jsval \<Rightarrow>
     ('a jsval + 'a promise) \<times> 'a trace" where
  "execute dispatchRequest requestInterceptorChain responseInterceptorChain
       synchronousRequestInterceptors config =
     (if \<not> synchronousRequestInterceptors then
        (let chain = map (map_option Interceptor) requestInterceptorChain
                       @ [Some (Transport dispatchRequest), None];
             unused = chain @ map (map_option Interceptor) responseInterceptorChain
         in case then_loop chain (Fulfilled config) [] of (promise, tr) \<Rightarrow> (Inr promise, tr))
      else
        (case request_loop requestInterceptorChain config [] of
           (Threw e, tr) \<Rightarrow> (Inl e, tr)
         | (Completed newConfig, tr) \<Rightarrow>
             dispatch_and_respond dispatchRequest responseInterceptorChain newConfig tr
         | (Aborted newConfig, tr) \<Rightarrow>
             dispatch_and_respond dispatchRequest responseInterceptorChain newConfig tr))"

subsection \<open>The configuration (lines 27 to 46)\<close>

text \<open>
  A configuration object: the two properties that \<open>request\<close> reads and writes, and the
  others. An absent property is \<open>None\<close>; \<open>{}\<close> has none.
\<close>

record 'x config =
  url :: "string option" method' :: "string option" others :: "string \<rightharpoonup> 'x"

definition emptyObject :: "'x config" where
  "emptyObject = \<lparr>url = None, method' = None, others = Map.empty\<rparr>"

text \<open>
  The first argument of \<open>request\<close>: a string, a configuration object, or nothing. The
  second argument is a configuration object or nothing.
\<close>

datatype 'x argument = ArgString string | ArgObject "'x config" | ArgMissing

fun normalizeArguments :: "'x argument \<Rightarrow> 'x config option \<Rightarrow> 'x config" where
  "normalizeArguments (ArgString s) arg1 =
     (case arg1 of None \<Rightarrow> emptyObject | Some c \<Rightarrow> c)\<lparr>url := Some s\<rparr>"
| "normalizeArguments (ArgObject c) arg1 = c"
| "normalizeArguments ArgMissing arg1 = emptyObject"

text \<open>
  \<open>String.prototype.toLowerCase\<close>. A character of a string is one of the code units
  U+0000 to U+00FF. The capital letters among them are \<open>A\<close> to \<open>Z\<close> and U+00C0 to U+00DE
  without the multiplication sign U+00D7; \<open>toLowerCase\<close> maps each of them to the small
  letter 32 places further on and leaves every other code unit of this range as it is. None
  of its rules that look at the neighbouring characters applies in this range.
\<close>

definition upperLetters :: string where
  "upperLetters = ''ABCDEFGHIJKLMNOPQRSTUVWXYZ'' @
     [CHR 0xC0, CHR 0xC1, CHR 0xC2, CHR 0xC3, CHR 0xC4, CHR 0xC5, CHR 0xC6, CHR 0xC7,
      CHR 0xC8, CHR 0xC9, CHR 0xCA, CHR 0xCB, CHR 0xCC, CHR 0xCD, CHR 0xCE, CHR 0xCF,
      CHR 0xD0, CHR 0xD1, CHR 0xD2, CHR 0xD3, CHR 0xD4, CHR 0xD5, CHR 0xD6, CHR 0xD8,
      CHR 0xD9, CHR 0xDA, CHR 0xDB, CHR 0xDC, CHR 0xDD, CHR 0xDE]"

definition lowerLetters :: string where
  "lowerLetters = ''abcdefghijklmnopqrstuvwxyz'' @
     [CHR 0xE0, CHR 0xE1, CHR 0xE2, CHR 0xE3, CHR 0xE4, CHR 0xE5, CHR 0xE6, CHR 0xE7,
      CHR 0xE8, CHR 0xE9, CHR 0xEA, CHR 0xEB, CHR 0xEC, CHR 0xED, CHR 0xEE, CHR 0xEF,
      CHR 0xF0, CHR 0xF1, CHR 0xF2, CHR 0xF3, CHR 0xF4, CHR 0xF5, CHR 0xF6, CHR 0xF8,
      CHR 0xF9, CHR 0xFA, CHR 0xFB, CHR 0xFC, CHR 0xFD, CHR 0xFE]"


definition lowerChar :: "char \<Rightarrow> char" where
  "lowerChar c = (case map_of (zip upperLetters lowerLetters) c of None \<Rightarrow> c | Some l \<Rightarrow> l)"

definition toLowerCase :: "string \<Rightarrow> string" where
  "toLowerCase s = map lowerChar s"

text \<open>The truth value of a property that holds a string: absent and \<open>''\<close> are falsy.\<close>

fun truthy :: "string option \<Rightarrow> bool" where
  "truthy None = False"
| "truthy (Some s) = (s \<noteq> [])"

definition setMethod :: "'x config \<Rightarrow> 'x config \<Rightarrow> 'x config" where
  "setMethod defaults config =
     (if truthy (method' config) then config\<lparr>method' := map_option toLowerCase (method' config)\<rparr>
      else if truthy (method' defaults)
        then config\<lparr>method' := map_option toLowerCase (method' defaults)\<rparr>
      else config\<lparr>method' := Some ''get''\<rparr>)"

definition resolveConfig ::
  "('x config \<Rightarrow> 'x config \<Rightarrow> 'x config) \<Rightarrow> 'x config \<Rightarrow> 'x argument \<Rightarrow> 'x config option \<Rightarrow>
     'x config" where
  "resolveConfig mergeConfig defaults arg0 arg1 =
     setMethod defaults (mergeConfig defaults (normalizeArguments arg0 arg1))"

subsection \<open>\<open>Axios.prototype.request\<close>\<close>

record 'x axios =
  defaults :: "'x config"
  interceptors_request :: "'x config interceptor option list"
  interceptors_response :: "'x config interceptor option list"

definition request ::
  "('x config \<Rightarrow> 'x config \<Rightarrow> 'x config) \<Rightarrow> 'x config transport \<Rightarrow> 'x axios \<Rightarrow>
     'x argument \<Rightarrow> 'x config option \<Rightarrow>
     ('x config jsval + 'x config promise) \<times> 'x config trace" where
  "request mergeConfig dispatchRequest self arg0 arg1 =
     (let config = Val (resolveConfig mergeConfig (defaults self) arg0 arg1)
      in case assemble (interceptors_request self) (interceptors_response self) config of
           (requestInterceptorChain, responseInterceptorChain, synchronousRequestInterceptors) \<Rightarrow>
             execute dispatchRequest requestInterceptorChain responseInterceptorChain
               synchronousRequestInterceptors config)"

subsection \<open>Notions of the specification\<close>

text \<open>
  An entry is activated for a request when its activation predicate is absent or does not
  evaluate to false on the resolved configuration.
\<close>

definition activated :: "'a jsval \<Rightarrow> 'a interceptor \<Rightarrow> bool" where
  "activated config i = (case runWhen i of None \<Rightarrow> True | Some p \<Rightarrow> p config)"

text \<open>The entries of a registry that are left, in registration order.\<close>

fun live :: "'a interceptor option list \<Rightarrow> 'a interceptor list" where
  "live [] = []"
| "live (None # hs) = live hs"
| "live (Some h # hs) = h # live hs"

text \<open>The handler pairs of a list of entries, flattened.\<close>

definition pairs :: "'a interceptor list \<Rightarrow> 'a handler option list" where
  "pairs es = concat (map (\<lambda>i. [fulfilled i, rejected i]) es)"

subsection \<open>Example collaborators and handlers\<close>

text \<open>
  Concrete inputs for the evaluations below: a handler that appends to the URL of the
  configuration it is given, a handler that raises, a transport call that answers with the
  configuration it was given, a transport call that raises, and a merge that keeps the
  request's own configuration.
\<close>

definition appendUrl :: "string \<Rightarrow> 'x config jsval \<Rightarrow> 'x config completion" where
  "appendUrl s v =
     (case v of
        Val c \<Rightarrow> Returned (Val (c\<lparr>url := map_option (\<lambda>u. u @ s) (url c)\<rparr>))
      | TypeError \<Rightarrow> Raised TypeError)"

definition failWith :: "'x config \<Rightarrow> 'x config jsval \<Rightarrow> 'x config completion" where
  "failWith e v = Raised (Val e)"

definition echoTransport :: "'a transport" where
  "echoTransport config = Inr (Fulfilled config)"

definition failingTransport :: "'a jsval \<Rightarrow> 'a transport" where
  "failingTransport e config = Inl e"

definition keepConfig :: "'x config \<Rightarrow> 'x config \<Rightarrow> 'x config" where
  "keepConfig config1 config2 = config2"

definition entry :: "'a handler option \<Rightarrow> 'a handler option \<Rightarrow> bool \<Rightarrow> 'a interceptor" where
  "entry f r s = \<lparr>fulfilled = f, rejected = r, synchronous = s, runWhen = None\<rparr>"

definition getConfig :: "string \<Rightarrow> string config" where
  "getConfig u = \<lparr>url = Some u, method' = Some ''get'', others = Map.empty\<rparr>"

definition boom :: "string config" where
  "boom = \<lparr>url = None, method' = None, others = [''message'' \<mapsto> ''boom'']\<rparr>"

lemmas pipeline_defs =
  request_def assemble_def assembleRequest_def assembleResponse_def
  unshiftRequestInterceptors_def pushResponseInterceptors_def execute_def
  dispatch_and_respond_def try_onFulfilled_def resolveConfig_def setMethod_def
  emptyObject_def Let_def

lemmas example_defs =
  appendUrl_def failWith_def echoTransport_def failingTransport_def keepConfig_def entry_def
  getConfig_def boom_def

section \<open>Properties of the chain assembly\<close>

lemma forEach_foldl: "forEach reg fn s = foldl fn s (live reg)"
  by (induction reg fn s rule: forEach.induct) simp_all

lemma live_append: "live (xs @ ys) = live xs @ live ys"
  by (induction xs rule: live.induct) simp_all

lemma set_live: "set (live reg) = {i. Some i \<in> set reg}"
  by (induction reg rule: live.induct) auto

lemma pairs_append: "pairs (xs @ ys) = pairs xs @ pairs ys"
  by (simp add: pairs_def)

lemma even_length_pairs: "even (length (pairs es))"
  by (induction es) (simp_all add: pairs_def)

lemma unshift_step:
  "unshiftRequestInterceptors config (chain, sync) e =
     (if activated config e then (fulfilled e # rejected e # chain, sync \<and> synchronous e)
      else (chain, sync))"
  by (cases "runWhen e") (simp_all add: unshiftRequestInterceptors_def activated_def)

lemma foldl_unshift:
  "foldl (unshiftRequestInterceptors config) (chain, sync) es =
     (pairs (rev (filter (activated config) es)) @ chain,
      sync \<and> (\<forall>i \<in> set es. activated config i \<longrightarrow> synchronous i))"
proof (induction es arbitrary: chain sync)
  case Nil
  show ?case by (simp add: pairs_def)
next
  case (Cons e es)
  show ?case
    by (auto simp: Cons.IH unshift_step pairs_def)
qed

text \<open>
  The request chain holds the pairs of the activated entries, last registered first, and the
  flag is the conjunction of their \<open>synchronous\<close> properties.
\<close>

lemma assembleRequest_eq:
  "assembleRequest reg config =
     (pairs (rev (filter (activated config) (live reg))),
      \<forall>i \<in> set (live reg). activated config i \<longrightarrow> synchronous i)"
  by (simp add: assembleRequest_def forEach_foldl foldl_unshift)

lemma foldl_push: "foldl pushResponseInterceptors chain es = chain @ pairs es"
  by (induction es arbitrary: chain) (simp_all add: pushResponseInterceptors_def pairs_def)

text \<open>The response chain holds the pairs of all entries in registration order.\<close>

lemma assembleResponse_eq: "assembleResponse reg = pairs (live reg)"
  by (simp add: assembleResponse_def forEach_foldl foldl_push)

text \<open>
  Claim C4. The flag computed by the assembly is true exactly when every activated entry of
  the request registry is declared synchronous. It is true for the empty registry, and for
  a registry none of whose entries is activated, and it is the same whatever the response
  registry holds.
\<close>

theorem synchronous_flag_iff:
  "(snd (snd (assemble requestRegistry responseRegistry config)) \<longleftrightarrow>
      (\<forall>i. Some i \<in> set requestRegistry \<and> activated config i \<longrightarrow> synchronous i))
   \<and> snd (snd (assemble [] responseRegistry config))
   \<and> ((\<forall>i. Some i \<in> set requestRegistry \<longrightarrow> \<not> activated config i) \<longrightarrow>
        snd (snd (assemble requestRegistry responseRegistry config)))
   \<and> snd (snd (assemble requestRegistry responseRegistry config)) =
       snd (snd (assemble requestRegistry responseRegistry' config))"
  by (auto simp: assemble_def assembleRequest_eq set_live)

theorem synchronous_flag_iff_witness:
  "snd (snd (assemble
      [Some \<lparr>fulfilled = None, rejected = None, synchronous = True, runWhen = None\<rparr>,
       Some \<lparr>fulfilled = None, rejected = None, synchronous = False,
             runWhen = Some (\<lambda>c. c = Val (1::nat))\<rparr>]
      [Some \<lparr>fulfilled = None, rejected = None, synchronous = False, runWhen = None\<rparr>]
      (Val 0)))"
proof -
  let ?reg = "[Some \<lparr>fulfilled = None, rejected = None, synchronous = True,
                     runWhen = None\<rparr>,
               Some \<lparr>fulfilled = None, rejected = None, synchronous = False,
                     runWhen = Some (\<lambda>c. c = Val (1::nat))\<rparr>]"
  have h: "\<forall>i. Some i \<in> set ?reg \<and> activated (Val 0) i \<longrightarrow> synchronous i"
    by (auto simp: activated_def)
  from h synchronous_flag_iff [of ?reg _ "Val 0"] show ?thesis
    by blast
qed

text \<open>
  Claim C8. An entry of the request registry whose activation predicate is a function: for a
  configuration on which the predicate is false, the assembly gives the chain and the flag
  it gives for the registry without the entry; for a configuration on which it is true, the
  same registry gives a chain with the entry's pair, between the pairs of the entries
  registered after it and those registered before it, and a flag with its conjunct.
\<close>

theorem runWhen_excludes_per_request:
  assumes "runWhen i = Some p"
  shows "(\<not> p config \<longrightarrow>
            assembleRequest (xs @ Some i # ys) config = assembleRequest (xs @ ys) config)
       \<and> (p config' \<longrightarrow>
            assembleRequest (xs @ Some i # ys) config' =
              (fst (assembleRequest ys config') @ [fulfilled i, rejected i]
                 @ fst (assembleRequest xs config'),
               snd (assembleRequest xs config') \<and> synchronous i
                 \<and> snd (assembleRequest ys config')))"
  using assms
  by (auto simp: assembleRequest_eq live_append activated_def pairs_append pairs_def)

theorem runWhen_excludes_per_request_witness:
  "runWhen \<lparr>fulfilled = Some (Handler ''f'' Returned), rejected = None, synchronous = False,
            runWhen = Some (\<lambda>c. c = Val (1::nat))\<rparr> = Some (\<lambda>c. c = Val (1::nat))
   \<and> \<not> (Val (0::nat) = Val 1) \<and> (Val (1::nat) = Val 1)
   \<and> assembleRequest
        [Some \<lparr>fulfilled = Some (Handler ''f'' Returned), rejected = None, synchronous = False,
               runWhen = Some (\<lambda>c. c = Val (1::nat))\<rparr>] (Val 0) = ([], True)
   \<and> assembleRequest
        [Some \<lparr>fulfilled = Some (Handler ''f'' Returned), rejected = None, synchronous = False,
               runWhen = Some (\<lambda>c. c = Val (1::nat))\<rparr>] (Val 1)
       = ([Some (Handler ''f'' Returned), None], False)"
  using runWhen_excludes_per_request
    [of "\<lparr>fulfilled = Some (Handler ''f'' Returned), rejected = None, synchronous = False,
          runWhen = Some (\<lambda>c. c = Val (1::nat))\<rparr>" "\<lambda>c. c = Val (1::nat)" "Val 0" "[]" "[]"
        "Val 1"]
  by (simp add: assembleRequest_def)

section \<open>Properties of the execution\<close>

subsection \<open>The two loops and their traces\<close>

text \<open>
  A chain of whole pairs that runs to its end hands its configuration to what follows it;
  a loop that was left stays left.
\<close>

lemma request_loop_append:
  "even (length ps) \<Longrightarrow>
   request_loop (ps @ qs) c tr =
     (case request_loop ps c tr of
        (Completed c', tr') \<Rightarrow> request_loop qs c' tr'
      | (Aborted c', tr') \<Rightarrow> (Aborted c', tr')
      | (Threw e, tr') \<Rightarrow> (Threw e, tr'))"
proof (induction ps c tr rule: request_loop.induct)
  case (1 newConfig tr)
  show ?case by simp
next
  case (2 onFulfilled newConfig tr)
  then show ?case by simp
next
  case (3 onFulfilled onRejected chain newConfig tr)
  then show ?case
    by (auto split: prod.splits step.splits)
qed

lemma run_callback_trace: "\<exists>ev. snd (run_callback f x tr) = tr @ [ev]"
  by (cases "(f, x, tr)" rule: run_callback.cases) auto

lemma promise_then_trace: "\<exists>evs. snd (promise_then p f r tr) = tr @ evs"
  using run_callback_trace [of _ _ tr]
  by (cases "(p, f, r, tr)" rule: promise_then.cases) auto

lemma then_loop_trace: "\<exists>evs. snd (then_loop chain p tr) = tr @ evs"
proof (induction chain p tr rule: then_loop.induct)
  case (1 promise tr)
  show ?case by simp
next
  case (2 f promise tr)
  show ?case using promise_then_trace [of promise f None tr] by simp
next
  case (3 f r chain promise tr)
  obtain p' tr' where pt: "promise_then promise f r tr = (p', tr')"
    by (cases "promise_then promise f r tr")
  from promise_then_trace [of promise f r tr] pt obtain evs where e1: "tr' = tr @ evs"
    by auto
  from "3.IH" [OF pt [symmetric]] obtain evs' where "snd (then_loop chain p' tr') = tr' @ evs'"
    by auto
  with pt e1 show ?case by simp
qed

lemma dispatch_and_respond_trace:
  "\<exists>evs. snd (dispatch_and_respond d post c tr) = tr @ DispatchCall c # evs"
proof (cases "d c")
  case (Inl e)
  then show ?thesis by (simp add: dispatch_and_respond_def)
next
  case (Inr p)
  from then_loop_trace [of "map (map_option Interceptor) post" p "tr @ [DispatchCall c]"]
  obtain evs where
    "snd (then_loop (map (map_option Interceptor) post) p (tr @ [DispatchCall c])) = (tr @ [DispatchCall c]) @ evs"
    by blast
  with Inr show ?thesis
    by (cases "then_loop (map (map_option Interceptor) post) p (tr @ [DispatchCall c])")
       (simp add: dispatch_and_respond_def)
qed

lemma request_direct:
  assumes "assembleRequest (interceptors_request self)
             (Val (resolveConfig mergeConfig (defaults self) arg0 arg1)) = (pre, True)"
  shows "request mergeConfig dispatchRequest self arg0 arg1 =
     (case request_loop pre (Val (resolveConfig mergeConfig (defaults self) arg0 arg1)) [] of
        (Threw e, tr) \<Rightarrow> (Inl e, tr)
      | (Completed c, tr) \<Rightarrow>
          dispatch_and_respond dispatchRequest (assembleResponse (interceptors_response self)) c tr
      | (Aborted c, tr) \<Rightarrow>
          dispatch_and_respond dispatchRequest (assembleResponse (interceptors_response self)) c tr)"
  using assms by (simp add: request_def assemble_def execute_def)

text \<open>
  The promise-based branch runs the same calls whatever the response chain holds, and never
  raises out of \<open>request\<close>.
\<close>

lemma suspended_ignores_response_chain:
  "execute d pre post False config = execute d pre [] False config"
  by (simp add: execute_def)

lemma suspended_returns_promise:
  "\<exists>p tr. execute d pre post False config = (Inr p, tr)"
  by (cases "then_loop (map (map_option Interceptor) pre @ [Some (Transport d), None])
               (Fulfilled config) []")
     (simp add: execute_def)

subsection \<open>The promise-based branch (claim C1)\<close>

text \<open>
  Claim C1 says that in the promise-based branch every pair of the response chain is chained
  after the transport call. Evaluated on one request interceptor that is not synchronous
  and one response interceptor, \<open>request\<close> returns the answer of the transport call
  untouched and never calls the response handler: the array built by \<open>concat\<close> in line 109
  is dropped. With the same interceptors declared synchronous, the direct branch does call
  the response handler.
\<close>

theorem suspended_strategy_drops_response_chain:
  "request keepConfig echoTransport
     \<lparr>defaults = emptyObject,
      interceptors_request = [Some (entry (Some (Handler ''pre'' (appendUrl ''?pre''))) None False)],
      interceptors_response = [Some (entry (Some (Handler ''post'' (appendUrl ''#post''))) None False)]\<rparr>
     (ArgString ''/a'') None
   = (Inr (Fulfilled (Val (getConfig ''/a?pre''))),
      [HandlerCall ''pre'' (Val (getConfig ''/a'')), DispatchCall (Val (getConfig ''/a?pre''))])
  \<and> request keepConfig echoTransport
     \<lparr>defaults = emptyObject,
      interceptors_request = [Some (entry (Some (Handler ''pre'' (appendUrl ''?pre''))) None True)],
      interceptors_response = [Some (entry (Some (Handler ''post'' (appendUrl ''#post''))) None False)]\<rparr>
     (ArgString ''/a'') None
   = (Inr (Fulfilled (Val (getConfig ''/a?pre#post''))),
      [HandlerCall ''pre'' (Val (getConfig ''/a'')), DispatchCall (Val (getConfig ''/a?pre'')),
       HandlerCall ''post'' (Val (getConfig ''/a?pre''))])"
  by (simp add: pipeline_defs example_defs)

subsection \<open>Failures that leave the entry point (claim C2)\<close>

text \<open>
  Claim C2 says that every failure reaches the caller through the returned promise. In the
  direct branch, what \<open>onRejected\<close> raises inside the \<open>catch\<close> of line 126 is raised out of
  \<open>request\<close>: no promise is returned. The promise-based branch, on the same interceptor not
  declared synchronous, returns a rejected promise.
\<close>

theorem direct_strategy_raises_synchronously:
  "request keepConfig echoTransport
     \<lparr>defaults = emptyObject,
      interceptors_request = [Some (entry (Some (Handler ''f'' (failWith boom))) (Some (Handler ''r'' Raised)) True)],
      interceptors_response = []\<rparr>
     (ArgString ''/a'') None
   = (Inl (Val boom), [HandlerCall ''f'' (Val (getConfig ''/a'')), HandlerCall ''r'' (Val boom)])
  \<and> request keepConfig echoTransport
     \<lparr>defaults = emptyObject,
      interceptors_request = [Some (entry (Some (Handler ''f'' (failWith boom))) (Some (Handler ''r'' Raised)) False)],
      interceptors_response = []\<rparr>
     (ArgString ''/a'') None
   = (Inr (Rejected (Val boom)), [HandlerCall ''f'' (Val (getConfig ''/a''))])"
  by (simp add: pipeline_defs example_defs)

subsection \<open>The order of the direct branch (claim C3)\<close>

text \<open>
  Claim C3. Request interceptors \<open>A\<close>, \<open>B\<close>, \<open>C\<close> registered in this order, without
  activation predicates and all synchronous, and response interceptors \<open>X\<close>, \<open>Y\<close>: when the
  handlers return and the transport call's promise is fulfilled, the calls are those of
  \<open>C\<close>, \<open>B\<close>, \<open>A\<close>, each on the result of the one before, then the transport call, then
  \<open>X\<close> and \<open>Y\<close>.
\<close>

theorem direct_strategy_order:
  assumes cfg: "config = Val (resolveConfig mergeConfig (defaults self) arg0 arg1)"
    and pre: "interceptors_request self = [Some A, Some B, Some C]"
    and post: "interceptors_response self = [Some X, Some Y]"
    and nopred: "runWhen A = None" "runWhen B = None" "runWhen C = None"
    and sync: "synchronous A" "synchronous B" "synchronous C"
    and hs: "fulfilled A = Some (Handler la fa)" "fulfilled B = Some (Handler lb fb)"
      "fulfilled C = Some (Handler lc fc)"
    and run: "fc config = Returned c1" "fb c1 = Returned c2" "fa c2 = Returned c3"
    and disp: "dispatchRequest c3 = Inr (Fulfilled r0)"
    and posth: "fulfilled X = Some (Handler lx fx)" "fx r0 = Returned r1"
      "fulfilled Y = Some (Handler ly fy)"
  shows "snd (request mergeConfig dispatchRequest self arg0 arg1) =
           [HandlerCall lc config, HandlerCall lb c1, HandlerCall la c2, DispatchCall c3,
            HandlerCall lx r0, HandlerCall ly r1]"
proof -
  have asm: "assembleRequest (interceptors_request self) config =
      ([Some (Handler lc fc), rejected C, Some (Handler lb fb), rejected B,
        Some (Handler la fa), rejected A], True)"
    using pre nopred sync hs
    by (simp add: assembleRequest_def unshiftRequestInterceptors_def)
  have resp: "assembleResponse (interceptors_response self) =
      [Some (Handler lx fx), rejected X, Some (Handler ly fy), rejected Y]"
    using post posth by (simp add: assembleResponse_def pushResponseInterceptors_def)
  have loop: "request_loop [Some (Handler lc fc), rejected C, Some (Handler lb fb), rejected B,
        Some (Handler la fa), rejected A] config [] =
      (Completed c3, [HandlerCall lc config, HandlerCall lb c1, HandlerCall la c2])"
    using run by (simp add: try_onFulfilled_def)
  have tail: "dispatch_and_respond dispatchRequest
        [Some (Handler lx fx), rejected X, Some (Handler ly fy), rejected Y] c3
        [HandlerCall lc config, HandlerCall lb c1, HandlerCall la c2] =
      (Inr (case fy r1 of Returned v \<Rightarrow> Fulfilled v | Raised e \<Rightarrow> Rejected e),
       [HandlerCall lc config, HandlerCall lb c1, HandlerCall la c2, DispatchCall c3,
        HandlerCall lx r0, HandlerCall ly r1])"
    using disp posth(2) by (simp add: dispatch_and_respond_def)
  show ?thesis
    using request_direct [OF asm [unfolded cfg]] loop [unfolded cfg] tail [unfolded cfg]
    by (simp add: resp cfg)
qed

theorem direct_strategy_order_witness:
  "snd (request keepConfig echoTransport
     \<lparr>defaults = emptyObject,
      interceptors_request =
        [Some (entry (Some (Handler ''A'' (appendUrl ''a''))) None True),
         Some (entry (Some (Handler ''B'' (appendUrl ''b''))) None True),
         Some (entry (Some (Handler ''C'' (appendUrl ''c''))) None True)],
      interceptors_response =
        [Some (entry (Some (Handler ''X'' (appendUrl ''x''))) None False),
         Some (entry (Some (Handler ''Y'' (appendUrl ''y''))) None False)]\<rparr>
     (ArgString ''/'') None)
   = [HandlerCall ''C'' (Val (getConfig ''/'')), HandlerCall ''B'' (Val (getConfig ''/c'')),
      HandlerCall ''A'' (Val (getConfig ''/cb'')), DispatchCall (Val (getConfig ''/cba'')),
      HandlerCall ''X'' (Val (getConfig ''/cba'')), HandlerCall ''Y'' (Val (getConfig ''/cbax''))]"
  using direct_strategy_order [where mergeConfig = keepConfig and dispatchRequest = echoTransport
      and ?arg0.0 = "ArgString ''/''" and ?arg1.0 = None
      and self = "\<lparr>defaults = emptyObject,
          interceptors_request =
            [Some (entry (Some (Handler ''A'' (appendUrl ''a''))) None True),
             Some (entry (Some (Handler ''B'' (appendUrl ''b''))) None True),
             Some (entry (Some (Handler ''C'' (appendUrl ''c''))) None True)],
          interceptors_response =
            [Some (entry (Some (Handler ''X'' (appendUrl ''x''))) None False),
             Some (entry (Some (Handler ''Y'' (appendUrl ''y''))) None False)]\<rparr>"
      and config = "Val (getConfig ''/'')"
      and A = "entry (Some (Handler ''A'' (appendUrl ''a''))) None True"
      and B = "entry (Some (Handler ''B'' (appendUrl ''b''))) None True"
      and C = "entry (Some (Handler ''C'' (appendUrl ''c''))) None True"
      and X = "entry (Some (Handler ''X'' (appendUrl ''x''))) None False"
      and Y = "entry (Some (Handler ''Y'' (appendUrl ''y''))) None False"
      and la = "''A''" and lb = "''B''" and lc = "''C''" and lx = "''X''" and ly = "''Y''"
      and fa = "appendUrl ''a''" and fb = "appendUrl ''b''" and fc = "appendUrl ''c''"
      and fx = "appendUrl ''x''" and fy = "appendUrl ''y''"
      and ?c1.0 = "Val (getConfig ''/c'')" and ?c2.0 = "Val (getConfig ''/cb'')"
      and ?c3.0 = "Val (getConfig ''/cba'')" and ?r0.0 = "Val (getConfig ''/cba'')"
      and ?r1.0 = "Val (getConfig ''/cbax'')"]
  by (simp add: example_defs resolveConfig_def setMethod_def emptyObject_def)

subsection \<open>A failing request handler in the direct branch (claims C5 and C6)\<close>

text \<open>
  Claim C5 as stated says that the transport call receives the value that resulted from the
  failure handler. On one synchronous interceptor whose \<open>onFulfilled\<close> raises and whose
  \<open>onRejected\<close> returns another configuration, the transport call receives the
  configuration that \<open>onFulfilled\<close> was called with: the value of \<open>onRejected(error)\<close> is
  not assigned.
\<close>

theorem failure_handler_result_discarded:
  "snd (request keepConfig echoTransport
     \<lparr>defaults = emptyObject,
      interceptors_request =
        [Some (entry (Some (Handler ''f'' (failWith boom)))
                     (Some (Handler ''r'' (\<lambda>e. Returned (Val (getConfig ''/recovered''))))) True)],
      interceptors_response = []\<rparr>
     (ArgString ''/a'') None)
   = [HandlerCall ''f'' (Val (getConfig ''/a'')), HandlerCall ''r'' (Val boom),
      DispatchCall (Val (getConfig ''/a''))]
  \<and> getConfig ''/a'' \<noteq> getConfig ''/recovered''"
  by (simp add: pipeline_defs example_defs)

text \<open>
  Claim C5, amended. In the direct branch, let the handlers of the entries registered after
  an activated entry \<open>I\<close> run to their end with the configuration \<open>c\<close>, let the
  \<open>onFulfilled\<close> of \<open>I\<close> raise on \<open>c\<close>, and let its \<open>onRejected\<close> be present and return.
  Then no handler of the entries registered before \<open>I\<close> runs: the call of \<open>onRejected\<close> is
  followed at once by the transport call, on \<open>c\<close>, the configuration as it stood before
  the failing handler ran.
\<close>

theorem direct_failure_aborts_with_prior_config:
  assumes cfg: "config = Val (resolveConfig mergeConfig (defaults self) arg0 arg1)"
    and reg: "interceptors_request self = earlier @ Some I # later"
    and sync: "snd (assembleRequest (interceptors_request self) config)"
    and act: "activated config I"
    and first: "request_loop (fst (assembleRequest later config)) config [] = (Completed c, tr)"
    and f: "fulfilled I = Some (Handler lf f)" "f c = Raised e"
    and r: "rejected I = Some (Handler lr r)" "r e = Returned w"
  shows "request mergeConfig dispatchRequest self arg0 arg1 =
           dispatch_and_respond dispatchRequest (assembleResponse (interceptors_response self)) c
             (tr @ [HandlerCall lf c, HandlerCall lr e])
       \<and> (\<exists>evs. snd (request mergeConfig dispatchRequest self arg0 arg1) =
              tr @ [HandlerCall lf c, HandlerCall lr e, DispatchCall c] @ evs)"
proof -
  let ?late = "fst (assembleRequest later config)"
  let ?early = "fst (assembleRequest earlier config)"
  have chain: "fst (assembleRequest (interceptors_request self) config) =
      ?late @ Some (Handler lf f) # Some (Handler lr r) # ?early"
    using reg act f(1) r(1)
    by (simp add: assembleRequest_eq live_append pairs_append pairs_def)
  have ev: "even (length ?late)"
    by (simp add: assembleRequest_eq even_length_pairs)
  have step: "try_onFulfilled (Some (Handler lf f)) (Some (Handler lr r)) c tr =
      (Break, tr @ [HandlerCall lf c, HandlerCall lr e])"
    using f(2) r(2) by (simp add: try_onFulfilled_def)
  have loop: "request_loop (fst (assembleRequest (interceptors_request self) config)) config [] =
      (Aborted c, tr @ [HandlerCall lf c, HandlerCall lr e])"
    by (simp add: chain request_loop_append [OF ev] first step)
  have asm: "assembleRequest (interceptors_request self) config =
      (fst (assembleRequest (interceptors_request self) config), True)"
    using sync by (simp add: prod_eq_iff)
  have eq: "request mergeConfig dispatchRequest self arg0 arg1 =
      dispatch_and_respond dispatchRequest (assembleResponse (interceptors_response self)) c
        (tr @ [HandlerCall lf c, HandlerCall lr e])"
    using request_direct [OF asm [unfolded cfg]] loop [unfolded cfg] by simp
  from dispatch_and_respond_trace
    [of dispatchRequest "assembleResponse (interceptors_response self)" c
        "tr @ [HandlerCall lf c, HandlerCall lr e]"]
  show ?thesis by (simp add: eq)
qed

theorem direct_failure_aborts_with_prior_config_witness:
  "request keepConfig echoTransport
     \<lparr>defaults = emptyObject,
      interceptors_request =
        [Some (entry (Some (Handler ''early'' (appendUrl ''?early''))) None True),
         Some (entry (Some (Handler ''f'' (failWith boom)))
                     (Some (Handler ''r'' (\<lambda>e. Returned (Val (getConfig ''/recovered''))))) True),
         Some (entry (Some (Handler ''late'' (appendUrl ''?late''))) None True)],
      interceptors_response = [Some (entry (Some (Handler ''post'' (appendUrl ''#post''))) None False)]\<rparr>
     (ArgString ''/a'') None
   = (Inr (Fulfilled (Val (getConfig ''/a?late#post''))),
      [HandlerCall ''late'' (Val (getConfig ''/a'')), HandlerCall ''f'' (Val (getConfig ''/a?late'')),
       HandlerCall ''r'' (Val boom), DispatchCall (Val (getConfig ''/a?late'')),
       HandlerCall ''post'' (Val (getConfig ''/a?late''))])"
  using direct_failure_aborts_with_prior_config [where mergeConfig = keepConfig and dispatchRequest = echoTransport
      and ?arg0.0 = "ArgString ''/a''" and ?arg1.0 = None
      and self = "\<lparr>defaults = emptyObject,
          interceptors_request =
            [Some (entry (Some (Handler ''early'' (appendUrl ''?early''))) None True),
             Some (entry (Some (Handler ''f'' (failWith boom)))
                         (Some (Handler ''r'' (\<lambda>e. Returned (Val (getConfig ''/recovered''))))) True),
             Some (entry (Some (Handler ''late'' (appendUrl ''?late''))) None True)],
          interceptors_response = [Some (entry (Some (Handler ''post'' (appendUrl ''#post''))) None False)]\<rparr>"
      and config = "Val (getConfig ''/a'')"
      and earlier = "[Some (entry (Some (Handler ''early'' (appendUrl ''?early''))) None True)]"
      and later = "[Some (entry (Some (Handler ''late'' (appendUrl ''?late''))) None True)]"
      and I = "entry (Some (Handler ''f'' (failWith boom)))
                         (Some (Handler ''r'' (\<lambda>e. Returned (Val (getConfig ''/recovered''))))) True"
      and c = "Val (getConfig ''/a?late'')" and tr = "[HandlerCall ''late'' (Val (getConfig ''/a''))]"
      and lf = "''f''" and f = "failWith boom" and e = "Val boom"
      and lr = "''r''" and r = "\<lambda>e. Returned (Val (getConfig ''/recovered''))"
      and w = "Val (getConfig ''/recovered'')"]
  by (simp add: example_defs resolveConfig_def setMethod_def emptyObject_def activated_def
      assembleRequest_def assembleResponse_def pushResponseInterceptors_def
      unshiftRequestInterceptors_def try_onFulfilled_def dispatch_and_respond_def)

text \<open>
  Claim C6 says that the transport call is still dispatched when the interceptor whose
  \<open>onFulfilled\<close> raises has no \<open>onRejected\<close>. Evaluated on one such synchronous
  interceptor, \<open>request\<close> raises a \<open>TypeError\<close> out of the \<open>catch\<close>, where \<open>undefined\<close> is
  called, and the transport call is never made.
\<close>

theorem absent_onRejected_raises_TypeError:
  "request keepConfig echoTransport
     \<lparr>defaults = emptyObject,
      interceptors_request = [Some (entry (Some (Handler ''A'' (failWith boom))) None True)],
      interceptors_response = []\<rparr>
     (ArgString ''/a'') None
   = (Inl TypeError, [HandlerCall ''A'' (Val (getConfig ''/a''))])"
  by (simp add: pipeline_defs example_defs)

subsection \<open>A transport call that raises (claim C7)\<close>

text \<open>
  Claim C7. In the direct branch, when the loop over the request chain was left with the
  configuration \<open>c\<close> (at its end or by \<open>break\<close>) and the transport call raises \<open>e\<close> on
  \<open>c\<close>, \<open>request\<close> returns a promise rejected with \<open>e\<close> and raises nothing.
\<close>

theorem transport_raise_becomes_rejection:
  assumes "config = Val (resolveConfig mergeConfig (defaults self) arg0 arg1)"
    and "assembleRequest (interceptors_request self) config = (pre, True)"
    and "request_loop pre config [] = (ex, tr)"
    and "ex = Completed c \<or> ex = Aborted c"
    and "dispatchRequest c = Inl e"
  shows "request mergeConfig dispatchRequest self arg0 arg1 =
           (Inr (Rejected e), tr @ [DispatchCall c])"
  using assms by (auto simp: request_direct dispatch_and_respond_def)

theorem transport_raise_becomes_rejection_witness:
  "request keepConfig (failingTransport (Val boom))
     \<lparr>defaults = emptyObject,
      interceptors_request = [Some (entry (Some (Handler ''pre'' (appendUrl ''?pre''))) None True)],
      interceptors_response = [Some (entry (Some (Handler ''post'' (appendUrl ''#post''))) None False)]\<rparr>
     (ArgString ''/a'') None
   = (Inr (Rejected (Val boom)),
      [HandlerCall ''pre'' (Val (getConfig ''/a'')), DispatchCall (Val (getConfig ''/a?pre''))])"
  using transport_raise_becomes_rejection [where mergeConfig = keepConfig and dispatchRequest = "failingTransport (Val boom)"
      and ?arg0.0 = "ArgString ''/a''" and ?arg1.0 = None
      and self = "\<lparr>defaults = emptyObject,
          interceptors_request = [Some (entry (Some (Handler ''pre'' (appendUrl ''?pre''))) None True)],
          interceptors_response = [Some (entry (Some (Handler ''post'' (appendUrl ''#post''))) None False)]\<rparr>"
      and config = "Val (getConfig ''/a'')"
      and pre = "[Some (Handler ''pre'' (appendUrl ''?pre'')), None]"
      and ex = "Completed (Val (getConfig ''/a?pre''))"
      and tr = "[HandlerCall ''pre'' (Val (getConfig ''/a''))]"
      and c = "Val (getConfig ''/a?pre'')" and e = "Val boom"]
  by (simp add: example_defs resolveConfig_def setMethod_def emptyObject_def
      assembleRequest_def unshiftRequestInterceptors_def try_onFulfilled_def)

section \<open>Properties of the configuration\<close>

lemma url_setMethod: "url (setMethod dflt c) = url c"
  by (simp add: setMethod_def)

text \<open>
  Claim C9. Called with a string and an optional second argument, \<open>request\<close> runs the
  assembly and the chains on the configuration that \<open>mergeConfig\<close> makes of the defaults
  and of the second argument (or of \<open>{}\<close> when there is none) with the string as its
  \<open>url\<close>; the other properties of the second argument are kept. Called with an object, it
  runs on what \<open>mergeConfig\<close> makes of that object, and called with nothing, of \<open>{}\<close>. When
  \<open>mergeConfig\<close> keeps the \<open>url\<close> of the request's configuration, the string is the \<open>url\<close>
  of the resolved configuration, and without request interceptors it is the \<open>url\<close> of the
  configuration that the transport call receives.
\<close>

theorem request_arguments_normalized:
  "request mergeConfig dispatchRequest self (ArgString s) arg1 =
     (let config = Val (setMethod (defaults self) (mergeConfig (defaults self)
                     ((case arg1 of None \<Rightarrow> emptyObject | Some c \<Rightarrow> c)\<lparr>url := Some s\<rparr>)))
      in case assemble (interceptors_request self) (interceptors_response self) config of
           (pre, post, sync) \<Rightarrow> execute dispatchRequest pre post sync config)
   \<and> request mergeConfig dispatchRequest self (ArgObject c) arg1 =
     (let config = Val (setMethod (defaults self) (mergeConfig (defaults self) c))
      in case assemble (interceptors_request self) (interceptors_response self) config of
           (pre, post, sync) \<Rightarrow> execute dispatchRequest pre post sync config)
   \<and> request mergeConfig dispatchRequest self ArgMissing arg1 =
     (let config = Val (setMethod (defaults self) (mergeConfig (defaults self) emptyObject))
      in case assemble (interceptors_request self) (interceptors_response self) config of
           (pre, post, sync) \<Rightarrow> execute dispatchRequest pre post sync config)
   \<and> url (normalizeArguments (ArgString s) arg1) = Some s
   \<and> method' (normalizeArguments (ArgString s) (Some c)) = method' c
   \<and> others (normalizeArguments (ArgString s) (Some c)) = others c
   \<and> ((\<forall>d k. url (mergeConfig d k) = url k) \<longrightarrow>
        url (resolveConfig mergeConfig (defaults self) (ArgString s) arg1) = Some s)
   \<and> ((\<forall>d k. url (mergeConfig d k) = url k) \<and> interceptors_request self = [] \<longrightarrow>
        (\<exists>cfg evs. url cfg = Some s \<and>
           snd (request mergeConfig dispatchRequest self (ArgString s) arg1) =
             DispatchCall (Val cfg) # evs))"
proof -
  let ?given = "(case arg1 of None \<Rightarrow> emptyObject | Some c \<Rightarrow> c)\<lparr>url := Some s\<rparr>"
  let ?resolved = "resolveConfig mergeConfig (defaults self) (ArgString s) arg1"
  have run: "request mergeConfig dispatchRequest self a0 arg1 =
     (let config = Val (setMethod (defaults self)
                     (mergeConfig (defaults self) (normalizeArguments a0 arg1)))
      in case assemble (interceptors_request self) (interceptors_response self) config of
           (pre, post, sync) \<Rightarrow> execute dispatchRequest pre post sync config)" for a0
    by (simp add: request_def resolveConfig_def)
  have u: "url (normalizeArguments (ArgString s) arg1) = Some s"
    by simp
  have keep: "url ?resolved = Some s" if "\<forall>d k. url (mergeConfig d k) = url k"
    using that by (simp add: resolveConfig_def url_setMethod)
  have first: "\<exists>cfg evs. url cfg = Some s \<and>
      snd (request mergeConfig dispatchRequest self (ArgString s) arg1) =
        DispatchCall (Val cfg) # evs"
    if m: "\<forall>d k. url (mergeConfig d k) = url k" and e: "interceptors_request self = []"
  proof -
    have asm: "assembleRequest (interceptors_request self) (Val ?resolved) = ([], True)"
      by (simp add: e assembleRequest_def)
    from dispatch_and_respond_trace
      [of dispatchRequest "assembleResponse (interceptors_response self)" "Val ?resolved" "[]"]
    obtain evs where
      "snd (dispatch_and_respond dispatchRequest
              (assembleResponse (interceptors_response self)) (Val ?resolved) []) =
         DispatchCall (Val ?resolved) # evs"
      by auto
    with request_direct [OF asm] keep [OF m] show ?thesis
      by auto
  qed
  show ?thesis
    using run [of "ArgString s"] run [of "ArgObject c"] run [of ArgMissing] u keep first
    by simp
qed

theorem request_arguments_normalized_witness:
  "snd (request keepConfig echoTransport
     \<lparr>defaults = emptyObject, interceptors_request = [], interceptors_response = []\<rparr>
     (ArgString ''/users'') (Some (emptyObject\<lparr>method' := Some ''POST''\<rparr>)))
   = [DispatchCall (Val \<lparr>url = Some ''/users'', method' = Some ''post'',
                         others = (Map.empty :: string \<rightharpoonup> string)\<rparr>)]"
  using request_arguments_normalized
    [of keepConfig echoTransport
        "\<lparr>defaults = emptyObject, interceptors_request = [], interceptors_response = []\<rparr>"
        "''/users''" "Some (emptyObject\<lparr>method' := Some ''POST''\<rparr>)"]
  by (simp add: pipeline_defs example_defs toLowerCase_def lowerChar_def upperLetters_def
      lowerLetters_def)

subsection \<open>The request method\<close>












end
